theory Spec2Isabelle
  imports Complex_Main "HOL-Library.Sublist"
begin

section \<open>JavaScript values, objects and strings\<close>

text \<open>
  Request parameters and navigation queries are plain objects whose values are
  strings, numbers, arrays or \<open>undefined\<close>. An object is a map from property names
  to values: a key bound to \<open>VUndefined\<close> is in the object, a key bound to nothing
  is not. Object spread \<open>{...a, ...b}\<close> is \<open>a ++ b\<close>. Strings are lists of
  code units below 256.
\<close>

datatype Value = VUndefined | VNull | VString string | VNumber int | VArray "Value list"

type_synonym Object = "string \<rightharpoonup> Value"

definition optString :: "string option \<Rightarrow> Value" where
  "optString s = (case s of None \<Rightarrow> VUndefined | Some x \<Rightarrow> VString x)"

definition optNumber :: "int option \<Rightarrow> Value" where
  "optNumber n = (case n of None \<Rightarrow> VUndefined | Some x \<Rightarrow> VNumber x)"

text \<open>\<open>s.split(sep)\<close> for a one-character separator: never the empty list.\<close>

fun split_js :: "char \<Rightarrow> string \<Rightarrow> string list" where
  "split_js sep [] = [[]]"
| "split_js sep (c # cs) =
     (if c = sep then [] # split_js sep cs
      else (case split_js sep cs of
              w # ws \<Rightarrow> (c # w) # ws
            | [] \<Rightarrow> [[c]]))"

text \<open>\<open>xs[i]\<close>: \<open>undefined\<close> (here \<open>None\<close>) out of range.\<close>

definition index_js :: "'a list \<Rightarrow> nat \<Rightarrow> 'a option" where
  "index_js xs i = (if i < length xs then Some (xs ! i) else None)"

subsection \<open>\<open>Number(string)\<close>\<close>

text \<open>
  The result of \<open>Number\<close> applied to a string, following the StringToNumber grammar
  of ECMAScript: surrounding white space is dropped, the empty string is 0, then either
  a hexadecimal, octal or binary integer literal, or an optionally signed decimal
  literal or \<open>Infinity\<close>; anything else is \<open>NaN\<close>. \<open>Finite q\<close> carries the
  mathematical value \<open>q\<close> of the literal; the double is the nearest one to \<open>q\<close>.
\<close>

datatype jsNumber = NaN | PosInfinity | NegInfinity | Finite rat

definition isStrWhiteSpaceChar :: "char \<Rightarrow> bool" where
  "isStrWhiteSpaceChar c = ((of_char c :: nat) \<in> {9, 10, 11, 12, 13, 32, 160})"

definition trimString :: "string \<Rightarrow> string" where
  "trimString s = rev (dropWhile isStrWhiteSpaceChar (rev (dropWhile isStrWhiteSpaceChar s)))"

definition digitOf :: "nat \<Rightarrow> char \<Rightarrow> nat option" where
  "digitOf radix c =
     (let n = (of_char c :: nat);
          v = (if 48 \<le> n \<and> n \<le> 57 then Some (n - 48)
               else if 97 \<le> n \<and> n \<le> 102 then Some (n - 87)
               else if 65 \<le> n \<and> n \<le> 70 then Some (n - 55)
               else None)
      in case v of
           Some d \<Rightarrow> if d < radix then Some d else None
         | None \<Rightarrow> None)"

definition isDecimalDigit :: "char \<Rightarrow> bool" where
  "isDecimalDigit c = (digitOf 10 c \<noteq> None)"

fun digitsValue :: "nat \<Rightarrow> nat \<Rightarrow> string \<Rightarrow> nat option" where
  "digitsValue radix acc [] = Some acc"
| "digitsValue radix acc (c # cs) =
     (case digitOf radix c of
        None \<Rightarrow> None
      | Some d \<Rightarrow> digitsValue radix (acc * radix + d) cs)"

definition parseDigits :: "nat \<Rightarrow> string \<Rightarrow> nat option" where
  "parseDigits radix s = (if s = [] then None else digitsValue radix 0 s)"

definition scale10 :: "rat \<Rightarrow> int \<Rightarrow> rat" where
  "scale10 q e = (if 0 \<le> e then q * 10 ^ nat e else q / 10 ^ nat (- e))"

definition parseExponent :: "string \<Rightarrow> int option" where
  "parseExponent s =
     (if s = [] then Some 0
      else if hd s = CHR ''e'' \<or> hd s = CHR ''E'' then
        (let r = tl s in
         if r \<noteq> [] \<and> hd r = CHR ''-'' then map_option (\<lambda>n. - int n) (parseDigits 10 (tl r))
         else if r \<noteq> [] \<and> hd r = CHR ''+'' then map_option int (parseDigits 10 (tl r))
         else map_option int (parseDigits 10 r))
      else None)"

definition parseUnsignedDecimal :: "string \<Rightarrow> jsNumber" where
  "parseUnsignedDecimal s =
     (if s = ''Infinity'' then PosInfinity
      else
        (let ip = takeWhile isDecimalDigit s;
             r1 = dropWhile isDecimalDigit s;
             hasDot = (r1 \<noteq> [] \<and> hd r1 = CHR ''.'');
             fp = (if hasDot then takeWhile isDecimalDigit (tl r1) else []);
             r2 = (if hasDot then dropWhile isDecimalDigit (tl r1) else r1)
         in if ip = [] \<and> fp = [] then NaN
            else (case (digitsValue 10 0 (ip @ fp), parseExponent r2) of
                    (Some m, Some e) \<Rightarrow> Finite (scale10 (of_nat m) (e - int (length fp)))
                  | _ \<Rightarrow> NaN)))"

definition negateNumber :: "jsNumber \<Rightarrow> jsNumber" where
  "negateNumber x =
     (case x of
        NaN \<Rightarrow> NaN
      | PosInfinity \<Rightarrow> NegInfinity
      | NegInfinity \<Rightarrow> PosInfinity
      | Finite q \<Rightarrow> Finite (- q))"

definition parseRadixLiteral :: "nat \<Rightarrow> string \<Rightarrow> jsNumber" where
  "parseRadixLiteral radix s =
     (case parseDigits radix s of
        Some n \<Rightarrow> Finite (of_nat n)
      | None \<Rightarrow> NaN)"

definition Number :: "string \<Rightarrow> jsNumber" where
  "Number str =
     (let s = trimString str in
      if s = [] then Finite 0
      else if take 2 s = ''0x'' \<or> take 2 s = ''0X'' then parseRadixLiteral 16 (drop 2 s)
      else if take 2 s = ''0o'' \<or> take 2 s = ''0O'' then parseRadixLiteral 8 (drop 2 s)
      else if take 2 s = ''0b'' \<or> take 2 s = ''0B'' then parseRadixLiteral 2 (drop 2 s)
      else if hd s = CHR ''-'' then negateNumber (parseUnsignedDecimal (tl s))
      else if hd s = CHR ''+'' then parseUnsignedDecimal (tl s)
      else parseUnsignedDecimal s)"

text \<open>
  \<open>x <= 0\<close> on the double that \<open>Number\<close> returns. \<open>NaN\<close> compares false with
  everything. A literal of value \<open>q\<close> rounds (to nearest, ties to even) to a double
  that is at most 0 exactly when \<open>q\<close> is at most half the least positive double,
  2 to the power -1075.
\<close>

definition lessEqZero :: "jsNumber \<Rightarrow> bool" where
  "lessEqZero x =
     (case x of
        NaN \<Rightarrow> False
      | PosInfinity \<Rightarrow> False
      | NegInfinity \<Rightarrow> True
      | Finite q \<Rightarrow> q \<le> 1 / 2 ^ 1075)"

section \<open>The spans dataset configuration\<close>

subsection \<open>Field value options and the two option filters\<close>

text \<open>
  A \<open>FieldValueOption\<close> is \<open>{label, value: {kind, meta}}\<close>. The filters only ask
  whether \<open>meta\<close> has a \<open>dataType\<close> key (and its value) and whether it has a truthy
  \<open>unknown\<close> key, so the two optional keys are \<open>option\<close> fields: \<open>None\<close> is
  "the key is not in the object".
\<close>

datatype FieldValueKind = TAG | FIELD | FUNCTION

record FieldValueMeta =
  meta_name :: string
  meta_dataType :: "string option"
  meta_unknown :: "bool option"

record FieldValue =
  fv_kind :: FieldValueKind
  fv_meta :: FieldValueMeta

record FieldValueOption =
  opt_label :: string
  opt_value :: FieldValue

type_synonym FieldOptions = "string \<rightharpoonup> FieldValueOption"

definition filterTableOptions :: "FieldValueOption \<Rightarrow> bool" where
  "filterTableOptions option =
     (case meta_dataType (fv_meta (opt_value option)) of
        Some dt \<Rightarrow> dt \<noteq> ''number''
      | None \<Rightarrow> True)"

definition filterAggregateParams :: "FieldValueOption \<Rightarrow> bool" where
  "filterAggregateParams option =
     (if meta_unknown (fv_meta (opt_value option)) = Some True then True
      else (case meta_dataType (fv_meta (opt_value option)) of
              Some dt \<Rightarrow> dt = ''number''
            | None \<Rightarrow> True))"

text \<open>The conditions the specification speaks of.\<close>

definition declaresNumeric :: "FieldValueOption \<Rightarrow> bool" where
  "declaresNumeric option = (meta_dataType (fv_meta (opt_value option)) = Some ''number'')"

definition unknownFlagged :: "FieldValueOption \<Rightarrow> bool" where
  "unknownFlagged option = (meta_unknown (fv_meta (opt_value option)) = Some True)"

definition declaresNoDataType :: "FieldValueOption \<Rightarrow> bool" where
  "declaresNoDataType option = (meta_dataType (fv_meta (opt_value option)) = None)"

text \<open>An aggregate-function option: its \<open>meta\<close> has neither key.\<close>

definition avgFunctionOption :: FieldValueOption where
  "avgFunctionOption =
     \<lparr>opt_label = ''avg()'',
      opt_value = \<lparr>fv_kind = FUNCTION,
                   fv_meta = \<lparr>meta_name = ''avg'', meta_dataType = None, meta_unknown = None\<rparr>\<rparr>\<rparr>"

subsection \<open>Table field options\<close>

record Organization =
  org_slug :: string

text \<open>
  A tag of the catalog. \<open>kind\<close> is optional: \<open>None\<close> is \<open>undefined\<close>, which a
  template literal prints as the text \<open>undefined\<close>.
\<close>

record Tag =
  tag_key :: string
  tag_name :: string
  tag_kind :: "string option"

text \<open>
  A \<open>TagCollection\<close> is an object from names to tags; it is kept as the list of its
  properties in enumeration order, so \<open>Object.values\<close> is the list of second
  components. The optional argument \<open>tags\<close> is an \<open>option\<close>.
\<close>

type_synonym TagCollection = "(string \<times> Tag) list"

definition Object_values :: "TagCollection option \<Rightarrow> Tag list" where
  "Object_values tags = (case tags of None \<Rightarrow> [] | Some t \<Rightarrow> map snd t)"

record AggregateParameter =
  param_kind :: string
  param_columnTypes :: "string list"
  param_defaultValue :: string
  param_required :: bool

record Aggregation =
  agg_isSortable :: bool
  agg_outputType :: "string option"
  agg_parameters :: "AggregateParameter list"

text \<open>
  \<open>EAP_AGGREGATIONS\<close> is built by a \<open>reduce\<close> over
  \<open>ALLOWED_EXPLORE_VISUALIZE_AGGREGATES\<close>, a list of aggregate names declared
  outside these sources: it is the parameter \<open>allowed\<close>.
\<close>

definition EAP_AGGREGATIONS :: "string list \<Rightarrow> (string \<rightharpoonup> Aggregation)" where
  "EAP_AGGREGATIONS allowed =
     foldl (\<lambda>acc aggregate.
              acc(aggregate \<mapsto>
                \<lparr>agg_isSortable = True,
                 agg_outputType = None,
                 agg_parameters =
                   [\<lparr>param_kind = ''column'',
                     param_columnTypes = [''number'', ''string''],
                     param_defaultValue = ''span.duration'',
                     param_required = True\<rparr>]\<rparr>))
           Map.empty allowed"

definition templateString :: "string option \<Rightarrow> string" where
  "templateString s = (case s of None \<Rightarrow> ''undefined'' | Some x \<Rightarrow> x)"

definition spanTagKey :: "Tag \<Rightarrow> string" where
  "spanTagKey tag = templateString (tag_kind tag) @ '':'' @ tag_key tag"

definition spanTagOption :: "Tag \<Rightarrow> FieldValueOption" where
  "spanTagOption tag =
     \<lparr>opt_label = tag_name tag,
      opt_value =
        \<lparr>fv_kind = TAG,
         fv_meta =
           \<lparr>meta_name = tag_key tag,
            meta_dataType = Some (if tag_kind tag = Some ''tag'' then ''string'' else ''number''),
            meta_unknown = None\<rparr>\<rparr>\<rparr>"

text \<open>The callback of the \<open>reduce\<close>: \<open>{...acc, [key]: option}\<close>.\<close>

definition addSpanTag :: "FieldOptions \<Rightarrow> Tag \<Rightarrow> FieldOptions" where
  "addSpanTag acc tag = acc(spanTagKey tag \<mapsto> spanTagOption tag)"

definition spanTags :: "TagCollection option \<Rightarrow> FieldOptions" where
  "spanTags tags = foldl addSpanTag Map.empty (Object_values tags)"

text \<open>
  \<open>generateFieldOptions\<close> is imported from the discover views and is the parameter
  \<open>generateFieldOptions\<close> here, applied to the organization, the (empty) tag keys,
  the (empty) field keys and the aggregations. The custom measurements are not read.
\<close>

definition getEventsTableFieldOptions ::
  "(Organization \<Rightarrow> string list \<Rightarrow> string list \<Rightarrow> (string \<rightharpoonup> Aggregation) \<Rightarrow> FieldOptions) \<Rightarrow>
   string list \<Rightarrow> Organization \<Rightarrow> TagCollection option \<Rightarrow> 'cm option \<Rightarrow> FieldOptions" where
  "getEventsTableFieldOptions generateFieldOptions allowed organization tags customMeasurements =
     (let baseFieldOptions = generateFieldOptions organization [] [] (EAP_AGGREGATIONS allowed)
      in baseFieldOptions ++ spanTags tags)"

subsection \<open>The same function on a store of objects\<close>

text \<open>
  To speak about what the function does to the objects it is handed, the arguments
  are references into a store. An object literal, a spread and \<open>Object.values\<close>
  each allocate a new object; a property read looks a reference up. The store is the
  list of all objects allocated so far, a reference is a position in it.
  \<open>generateFieldOptions\<close> stays a function of the organization's value: what it
  does to the store is outside these sources.
\<close>

datatype Cell =
    OrganizationCell Organization
  | TagCollectionCell TagCollection
  | TagArrayCell "Tag list"
  | MeasurementsCell "string list"
  | FieldOptionsCell FieldOptions

type_synonym Store = "Cell list"

definition alloc :: "Store \<Rightarrow> Cell \<Rightarrow> nat \<times> Store" where
  "alloc s c = (length s, s @ [c])"

definition deref :: "Store \<Rightarrow> nat \<Rightarrow> Cell option" where
  "deref s r = (if r < length s then Some (s ! r) else None)"

text \<open>
  The \<open>reduce\<close>: at each tag the callback reads the accumulator and returns a
  new object, the accumulator's properties followed by the tag's.
\<close>

fun spanTagsReduce :: "Store \<Rightarrow> nat \<Rightarrow> Tag list \<Rightarrow> (nat \<times> Store) option" where
  "spanTagsReduce s acc [] = Some (acc, s)"
| "spanTagsReduce s acc (tag # rest) =
     (case deref s acc of
        Some (FieldOptionsCell a) \<Rightarrow>
          (let (r, s') = alloc s (FieldOptionsCell (addSpanTag a tag))
           in spanTagsReduce s' r rest)
      | _ \<Rightarrow> None)"

text \<open>
  The result is \<open>None\<close> only when a reference does not lead to an object of its
  declared type, which the types of the source exclude.
\<close>

definition getEventsTableFieldOptions_store ::
  "(Organization \<Rightarrow> string list \<Rightarrow> string list \<Rightarrow> (string \<rightharpoonup> Aggregation) \<Rightarrow> FieldOptions) \<Rightarrow>
   string list \<Rightarrow> Store \<Rightarrow> nat \<Rightarrow> nat option \<Rightarrow> nat option \<Rightarrow> (nat \<times> Store) option" where
  "getEventsTableFieldOptions_store generateFieldOptions allowed s organization tags customMeasurements =
     (case deref s organization of
        Some (OrganizationCell org) \<Rightarrow>
          (let (baseRef, s1) =
                 alloc s (FieldOptionsCell (generateFieldOptions org [] [] (EAP_AGGREGATIONS allowed)));
               (tagsRef, s2) =
                 (case tags of None \<Rightarrow> alloc s1 (TagCollectionCell []) | Some r \<Rightarrow> (r, s1))
           in case deref s2 tagsRef of
                Some (TagCollectionCell t) \<Rightarrow>
                  (let (valuesRef, s3) = alloc s2 (TagArrayCell (map snd t));
                       (initRef, s4) = alloc s3 (FieldOptionsCell Map.empty)
                   in case spanTagsReduce s4 initRef (map snd t) of
                        Some (spanTagsRef, s5) \<Rightarrow>
                          (case (deref s5 baseRef, deref s5 spanTagsRef) of
                             (Some (FieldOptionsCell b), Some (FieldOptionsCell st)) \<Rightarrow>
                               Some (alloc s5 (FieldOptionsCell (b ++ st)))
                           | _ \<Rightarrow> None)
                      | None \<Rightarrow> None)
              | _ \<Rightarrow> None)
      | _ \<Rightarrow> None)"

text \<open>
  What the optional argument \<open>tags\<close> leads to in a store: nothing
  (\<open>Some None\<close>), a catalog (\<open>Some (Some t)\<close>), or no catalog at all (\<open>None\<close>,
  which the types of the source exclude).
\<close>

definition readCatalog :: "Store \<Rightarrow> nat option \<Rightarrow> TagCollection option option" where
  "readCatalog s tags =
     (case tags of
        None \<Rightarrow> Some None
      | Some r \<Rightarrow>
          (case deref s r of
             Some (TagCollectionCell t) \<Rightarrow> Some (Some t)
           | _ \<Rightarrow> None))"

subsection \<open>The table request\<close>

record WidgetQuery =
  wq_name :: string
  wq_fields :: "string list"
  wq_columns :: "string list"
  wq_fieldAliases :: "string list"
  wq_aggregates :: "string list"
  wq_conditions :: string
  wq_orderby :: string

definition DEFAULT_WIDGET_QUERY :: WidgetQuery where
  "DEFAULT_WIDGET_QUERY =
     \<lparr>wq_name = '''',
      wq_fields = [''span.op'', ''avg(span.duration)''],
      wq_columns = [''span.op''],
      wq_fieldAliases = [],
      wq_aggregates = [''avg(span.duration)''],
      wq_conditions = '''',
      wq_orderby = ''-avg(span.duration)''\<rparr>"

record PageFilters =
  pf_projects :: "int list"
  pf_environments :: "string list"
  pf_period :: "string option"

record RetryOptions =
  retry_statusCodes :: "nat list"
  retry_tries :: nat

text \<open>The arguments of the call to \<open>doDiscoverQuery\<close>: url, query data, options.\<close>

record DiscoverCall =
  call_url :: string
  call_data :: Object
  call_retry :: "RetryOptions option"

text \<open>
  Modelled from the spec: \<open>DiscoverDatasets.SPANS_EAP\<close>, declared outside these
  sources, is the dataset identifier \<open>spans-eap\<close> of the outbound request.
\<close>

definition SPANS_EAP :: string where
  "SPANS_EAP = ''spans-eap''"

text \<open>
  Modelled from the spec: \<open>toArray\<close>, declared outside these sources, turns the
  order-by string into a single-element list.
\<close>

definition toArray :: "string \<Rightarrow> Value" where
  "toArray v = VArray [VString v]"

text \<open>The local \<open>params\<close> of \<open>getEventsRequest\<close>, as it stands at the call.\<close>

definition getEventsRequest_params ::
  "WidgetQuery \<Rightarrow> int option \<Rightarrow> string option \<Rightarrow> string option \<Rightarrow> Object option \<Rightarrow> Object" where
  "getEventsRequest_params query limit cursor referrer queryExtras =
     (let params =
            [''per_page'' \<mapsto> optNumber limit,
             ''cursor'' \<mapsto> optString cursor,
             ''referrer'' \<mapsto> optString referrer,
             ''dataset'' \<mapsto> VString SPANS_EAP]
            ++ (case queryExtras of None \<Rightarrow> Map.empty | Some extras \<Rightarrow> extras)
      in if wq_orderby query \<noteq> '''' then params(''sort'' \<mapsto> toArray (wq_orderby query))
         else params)"

text \<open>
  \<open>eventViewFromWidget\<close> and the event view's \<open>generateQueryStringObject\<close> are
  declared outside these sources: the parameter \<open>eventViewQuery\<close> is their
  composition, from the title, the widget query and the page filters to the
  query-string object.
\<close>

definition getEventsRequest ::
  "(string \<Rightarrow> WidgetQuery \<Rightarrow> PageFilters \<Rightarrow> Object) \<Rightarrow>
   WidgetQuery \<Rightarrow> Organization \<Rightarrow> PageFilters \<Rightarrow>
   int option \<Rightarrow> string option \<Rightarrow> string option \<Rightarrow> 'mep option \<Rightarrow> Object option \<Rightarrow> DiscoverCall" where
  "getEventsRequest eventViewQuery query organization pageFilters limit cursor referrer
       mepSetting queryExtras =
     (let url = ''/organizations/'' @ org_slug organization @ ''/events/'';
          eventView = eventViewQuery '''' query pageFilters;
          params = getEventsRequest_params query limit cursor referrer queryExtras
      in \<lparr>call_url = url,
          call_data = eventView ++ params,
          call_retry = Some \<lparr>retry_statusCodes = [429], retry_tries = 3\<rparr>\<rparr>)"

text \<open>
  \<open>SpansConfig.getTableRequest\<close> passes seven arguments on: the MEP setting and
  the query extras of \<open>getEventsRequest\<close> stay \<open>undefined\<close>.
\<close>

definition getTableRequest ::
  "(string \<Rightarrow> WidgetQuery \<Rightarrow> PageFilters \<Rightarrow> Object) \<Rightarrow>
   'widget \<Rightarrow> WidgetQuery \<Rightarrow> Organization \<Rightarrow> PageFilters \<Rightarrow> 'ctx option \<Rightarrow>
   int option \<Rightarrow> string option \<Rightarrow> string option \<Rightarrow> 'mep option \<Rightarrow> DiscoverCall" where
  "getTableRequest eventViewQuery widget query organization pageFilters onDemandControlContext
       limit cursor referrer mepSetting =
     getEventsRequest eventViewQuery query organization pageFilters limit cursor referrer
       (None :: unit option) None"

subsection \<open>The client's retries\<close>

text \<open>
  An answer of the server to one attempt: a payload, or a failure with its HTTP status.
  The server is the sequence of its answers to the successive attempts.
\<close>

datatype 'a Response = Succeeded 'a | Failed nat

text \<open>
  Modelled from the spec: the retry loop of \<open>doDiscoverQuery\<close>, the shared query
  client declared outside these sources. A request is retried transparently when the
  server answers with one of the configured status codes, while attempts are left; no
  other status triggers a retry. \<open>n\<close> counts the attempts already made,
  \<open>left\<close> the retries still allowed; the result is the number of attempts made
  and the answer that surfaces.
\<close>

fun retryLoop :: "nat list \<Rightarrow> (nat \<Rightarrow> 'a Response) \<Rightarrow> nat \<Rightarrow> nat \<Rightarrow> nat \<times> 'a Response" where
  "retryLoop codes server n 0 = (Suc n, server n)"
| "retryLoop codes server n (Suc left) =
     (case server n of
        Succeeded x \<Rightarrow> (Suc n, Succeeded x)
      | Failed status \<Rightarrow>
          if status \<in> set codes then retryLoop codes server (Suc n) left
          else (Suc n, Failed status))"

text \<open>
  Modelled from the spec: \<open>doDiscoverQuery\<close>, declared outside these sources, runs
  the request under the retry options of the call: up to \<open>tries\<close> attempts in total
  (at least one), retrying on the configured status codes only; without retry options
  it makes one attempt.
\<close>

definition doDiscoverQuery :: "(nat \<Rightarrow> 'a Response) \<Rightarrow> DiscoverCall \<Rightarrow> nat \<times> 'a Response" where
  "doDiscoverQuery server call =
     (case call_retry call of
        None \<Rightarrow> retryLoop [] server 0 0
      | Some retry \<Rightarrow> retryLoop (retry_statusCodes retry) server 0 (retry_tries retry - 1))"

section \<open>The dashboard list\<close>

record Widget =
  widget_id :: "string option"
  widget_title :: string
  widget_queries :: "WidgetQuery list"

record DashboardDetails =
  dash_id :: string
  dash_title :: string
  dash_widgets :: "Widget list"

record DashboardListItem =
  item_id :: string
  item_title :: string
  item_widgetPreview :: "string list"

record NavigateTarget =
  nav_pathname :: string
  nav_query :: Object

text \<open>
  What a handler does to the outside, in order: requests through the action creators
  (organization slug, then the dashboard id or the dashboard and the flag), analytics
  events (by their key), the refresh callback, notifications, navigation.
\<close>

datatype Effect =
    FetchDashboard string string
  | CreateDashboard string DashboardDetails bool
  | TrackAnalytics string
  | OnDashboardsChange
  | AddSuccessMessage string
  | AddErrorMessage string
  | Navigate NavigateTarget

datatype RequestError = RequestError nat

subsection \<open>Duplicate\<close>

text \<open>
  \<open>fetchDashboard\<close> and \<open>createDashboard\<close> are the answers of the backend (a
  rejected promise is \<open>Inl\<close>); \<open>cloneDashboard\<close> is imported from the dashboard
  utilities and is a parameter. The last argument of \<open>createDashboard\<close> is the
  flag that tells the backend not to reject a duplicate title. The \<open>catch\<close> turns
  any rejection into the one error notification.
\<close>

definition clearWidgetIds :: "DashboardDetails \<Rightarrow> DashboardDetails" where
  "clearWidgetIds newDashboard =
     newDashboard\<lparr>dash_widgets := map (\<lambda>widget. widget\<lparr>widget_id := None\<rparr>) (dash_widgets newDashboard)\<rparr>"

definition handleDuplicate ::
  "(string \<Rightarrow> string \<Rightarrow> RequestError + DashboardDetails) \<Rightarrow>
   (DashboardDetails \<Rightarrow> DashboardDetails) \<Rightarrow>
   (string \<Rightarrow> DashboardDetails \<Rightarrow> bool \<Rightarrow> RequestError + DashboardDetails) \<Rightarrow>
   Organization \<Rightarrow> DashboardListItem \<Rightarrow> Effect list" where
  "handleDuplicate fetchDashboard cloneDashboard createDashboard organization dashboard =
     (case fetchDashboard (org_slug organization) (item_id dashboard) of
        Inl e \<Rightarrow>
          [FetchDashboard (org_slug organization) (item_id dashboard),
           AddErrorMessage ''Error duplicating Dashboard'']
      | Inr dashboardDetail \<Rightarrow>
          (let newDashboard = clearWidgetIds (cloneDashboard dashboardDetail)
           in case createDashboard (org_slug organization) newDashboard True of
                Inl e \<Rightarrow>
                  [FetchDashboard (org_slug organization) (item_id dashboard),
                   CreateDashboard (org_slug organization) newDashboard True,
                   AddErrorMessage ''Error duplicating Dashboard'']
              | Inr created \<Rightarrow>
                  [FetchDashboard (org_slug organization) (item_id dashboard),
                   CreateDashboard (org_slug organization) newDashboard True,
                   TrackAnalytics ''dashboards_manage.duplicate'',
                   OnDashboardsChange,
                   AddSuccessMessage ''Dashboard duplicated'']))"

fun isCreate :: "Effect \<Rightarrow> bool" where
  "isCreate (CreateDashboard slug d flag) = True"
| "isCreate e = False"

subsection \<open>The context menu and the grid\<close>








subsection \<open>Pagination\<close>

definition cursorOffset :: "string option \<Rightarrow> jsNumber" where
  "cursorOffset cursor =
     (case cursor of
        None \<Rightarrow> Finite 0
      | Some c \<Rightarrow>
          (case index_js (split_js (CHR '':'') c) 1 of
             None \<Rightarrow> Finite 0
           | Some field \<Rightarrow> Number field))"

definition onCursor :: "string option \<Rightarrow> string \<Rightarrow> Object \<Rightarrow> int \<Rightarrow> Effect list" where
  "onCursor cursor path query direction =
     (let offset = cursorOffset cursor;
          newQuery = query(''cursor'' \<mapsto> optString cursor);
          isPrevious = (direction = - 1);
          newQuery' = (if lessEqZero offset \<and> isPrevious then newQuery(''cursor'' := None)
                       else newQuery)
      in [TrackAnalytics ''dashboards_manage.paginate'',
          Navigate \<lparr>nav_pathname = path, nav_query = newQuery'\<rparr>])"

text \<open>The query of the navigation a handler triggers.\<close>

fun navigatedQuery :: "Effect list \<Rightarrow> Object option" where
  "navigatedQuery [] = None"
| "navigatedQuery (Navigate target # es) = Some (nav_query target)"
| "navigatedQuery (e # es) = navigatedQuery es"

section \<open>Custom repositories: \<open>expandKeys\<close>\<close>
















subsection \<open>\<open>expandKeys\<close> on a store of objects\<close>






subsection \<open>Flat repository objects\<close>






section \<open>Sample inputs\<close>

text \<open>A tag whose \<open>kind\<close> is absent, and a plain string tag.\<close>

definition untypedTag :: Tag where
  "untypedTag = \<lparr>tag_key = ''foo'', tag_name = ''foo'', tag_kind = None\<rparr>"

definition browserTag :: Tag where
  "browserTag = \<lparr>tag_key = ''browser'', tag_name = ''Browser'', tag_kind = Some ''tag''\<rparr>"

definition acme :: Organization where
  "acme = \<lparr>org_slug = ''acme''\<rparr>"

text \<open>A \<open>generateFieldOptions\<close> that knows no option at all.\<close>

definition noFieldOptions ::
  "Organization \<Rightarrow> string list \<Rightarrow> string list \<Rightarrow> (string \<rightharpoonup> Aggregation) \<Rightarrow> FieldOptions" where
  "noFieldOptions organization tagKeys fieldKeys aggregations = Map.empty"

text \<open>A dashboard with two saved widgets, and two entries of the dashboard list.\<close>

definition twoWidgetDashboard :: DashboardDetails where
  "twoWidgetDashboard =
     \<lparr>dash_id = ''7'', dash_title = ''Overview'',
      dash_widgets =
        [\<lparr>widget_id = Some ''11'', widget_title = ''Slow spans'', widget_queries = [DEFAULT_WIDGET_QUERY]\<rparr>,
         \<lparr>widget_id = Some ''12'', widget_title = ''Errors'', widget_queries = []\<rparr>]\<rparr>"

definition overviewItem :: DashboardListItem where
  "overviewItem = \<lparr>item_id = ''7'', item_title = ''Overview'', item_widgetPreview = [''table'', ''table'']\<rparr>"


text \<open>
  A widget query without order-by, an event view that contributes no parameter, page
  filters, and two servers: one that always answers 429, one that always answers 500.
\<close>

definition unsortedQuery :: WidgetQuery where
  "unsortedQuery = DEFAULT_WIDGET_QUERY\<lparr>wq_orderby := ''''\<rparr>"

definition emptyEventView :: "string \<Rightarrow> WidgetQuery \<Rightarrow> PageFilters \<Rightarrow> Object" where
  "emptyEventView title query pageFilters = Map.empty"

text \<open>An event view whose query-string object carries a sort of its own.\<close>

definition sortingEventView :: "string \<Rightarrow> WidgetQuery \<Rightarrow> PageFilters \<Rightarrow> Object" where
  "sortingEventView title query pageFilters = [''sort'' \<mapsto> VArray []]"

definition allProjects :: PageFilters where
  "allProjects = \<lparr>pf_projects = [], pf_environments = [], pf_period = Some ''14d''\<rparr>"

definition rateLimited :: "nat \<Rightarrow> unit Response" where
  "rateLimited attempt = Failed 429"

definition serverError :: "nat \<Rightarrow> unit Response" where
  "serverError attempt = Failed 500"

text \<open>A store with an organization, a catalog of one tag and an empty catalog.\<close>

definition sampleStore :: Store where
  "sampleStore = [OrganizationCell acme, TagCollectionCell [(''foo'', untypedTag)], TagCollectionCell []]"





section \<open>Properties of the option filters\<close>

text \<open>
  C1 (as the code has it). The numeric data type is the data type \<open>number\<close>.
  \<open>filterTableOptions o\<close> is false exactly when \<open>o\<close> declares it. \<open>filterAggregateParams o\<close> is true exactly when \<open>o\<close> is
  flagged unknown, or declares the data type \<open>number\<close>, or declares no data type at
  all (the final \<open>return true\<close>).
\<close>

theorem filters_characterised:
  "(filterTableOptions option = False) = declaresNumeric option \<and>
   filterAggregateParams option =
     (unknownFlagged option \<or> declaresNumeric option \<or> declaresNoDataType option)"
  by (simp add: filterTableOptions_def filterAggregateParams_def declaresNumeric_def
      unknownFlagged_def declaresNoDataType_def split: option.split)

text \<open>
  C1 as the specification words it fails on an option with neither key: the aggregate
  parameter filter lets it through although it is neither unknown-flagged nor numeric.
\<close>

theorem filterAggregateParams_iff_counterexample:
  "filterAggregateParams avgFunctionOption \<noteq>
     (unknownFlagged avgFunctionOption \<or> declaresNumeric avgFunctionOption)"
  by (simp add: filterAggregateParams_def unknownFlagged_def declaresNumeric_def
      avgFunctionOption_def)

text \<open>
  C10. No option is hidden by both filters: whatever the primary filter rejects, the
  aggregate parameter filter accepts, and the other way round.
\<close>

theorem filters_cover_every_option:
  "filterTableOptions option \<or> filterAggregateParams option"
proof (cases "meta_dataType (fv_meta (opt_value option))")
  case None
  then show ?thesis by (simp add: filterTableOptions_def)
next
  case (Some dt)
  then show ?thesis
    by (cases "dt = ''number''") (simp_all add: filterTableOptions_def filterAggregateParams_def)
qed

section \<open>Properties of the table field options\<close>

lemma spanTags_fold_other:
  "k \<notin> spanTagKey ` set ts \<Longrightarrow> foldl addSpanTag m ts k = m k"
  by (induction ts arbitrary: m) (auto simp: addSpanTag_def)

lemma spanTags_fold_dom:
  "dom (foldl addSpanTag m ts) = dom m \<union> spanTagKey ` set ts"
  by (induction ts arbitrary: m) (auto simp: addSpanTag_def)

lemma spanTags_fold_last:
  "foldl addSpanTag m ts k =
     (case filter (\<lambda>u. spanTagKey u = k) ts of
        [] \<Rightarrow> m k
      | u # us \<Rightarrow> Some (spanTagOption (last (u # us))))"
proof (induction ts rule: rev_induct)
  case Nil
  then show ?case by simp
next
  case (snoc x xs)
  show ?case
  proof (cases "spanTagKey x = k")
    case True
    then have "filter (\<lambda>u. spanTagKey u = k) (xs @ [x]) = filter (\<lambda>u. spanTagKey u = k) xs @ [x]"
      by simp
    moreover have "foldl addSpanTag m (xs @ [x]) k = Some (spanTagOption x)"
      using True by (simp add: addSpanTag_def)
    ultimately show ?thesis
      by (cases "filter (\<lambda>u. spanTagKey u = k) xs") simp_all
  next
    case False
    then have "foldl addSpanTag m (xs @ [x]) k = foldl addSpanTag m xs k"
      by (simp add: addSpanTag_def)
    with False snoc.IH show ?thesis by simp
  qed
qed

lemma filter_distinct_key:
  "distinct (map f ts) \<Longrightarrow> t \<in> set ts \<Longrightarrow> filter (\<lambda>u. f u = f t) ts = [t]"
proof (induction ts)
  case Nil
  then show ?case by simp
next
  case (Cons a ts)
  show ?case
  proof (cases "t = a")
    case True
    from Cons.prems have "\<forall>u \<in> set ts. f u \<noteq> f a" by (auto simp: image_iff)
    then have "filter (\<lambda>u. f u = f a) ts = []" by (simp add: filter_empty_conv)
    with True show ?thesis by simp
  next
    case False
    with Cons.prems have "t \<in> set ts" "distinct (map f ts)" "f a \<noteq> f t" by (auto simp: image_iff)
    with Cons.IH show ?thesis by simp
  qed
qed

text \<open>
  C2 (as the code has it). Every tag \<open>t\<close> of the catalog has exactly one option
  under the key \<open><kind>:<key>\<close> (an absent kind prints as \<open>undefined\<close>): the
  option of the last tag of the catalog with that option key, which is \<open>t\<close> itself
  when the option keys of the catalog are pairwise different. The option's data type is
  \<open>string\<close> when the kind is \<open>tag\<close> and \<open>number\<close> otherwise, an absent kind
  included. The keys of the result are those of the base options and those of the tags,
  and a base option is kept wherever no tag has its key.
\<close>

theorem table_field_options_per_tag:
  assumes "t \<in> set (Object_values tags)"
  shows "getEventsTableFieldOptions generateFieldOptions allowed organization tags customMeasurements
           (templateString (tag_kind t) @ '':'' @ tag_key t) =
         Some (spanTagOption (last (filter (\<lambda>u. spanTagKey u = spanTagKey t) (Object_values tags)))) \<and>
         (distinct (map spanTagKey (Object_values tags)) \<longrightarrow>
          getEventsTableFieldOptions generateFieldOptions allowed organization tags customMeasurements
           (templateString (tag_kind t) @ '':'' @ tag_key t) =
          Some \<lparr>opt_label = tag_name t,
               opt_value = \<lparr>fv_kind = TAG,
                 fv_meta = \<lparr>meta_name = tag_key t,
                   meta_dataType = Some (if tag_kind t = Some ''tag'' then ''string'' else ''number''),
                   meta_unknown = None\<rparr>\<rparr>\<rparr>) \<and>
         dom (getEventsTableFieldOptions generateFieldOptions allowed organization tags customMeasurements) =
           dom (generateFieldOptions organization [] [] (EAP_AGGREGATIONS allowed)) \<union>
           spanTagKey ` set (Object_values tags) \<and>
         (\<forall>k. k \<notin> spanTagKey ` set (Object_values tags) \<longrightarrow>
           getEventsTableFieldOptions generateFieldOptions allowed organization tags customMeasurements k =
           generateFieldOptions organization [] [] (EAP_AGGREGATIONS allowed) k)"
proof -
  let ?base = "generateFieldOptions organization [] [] (EAP_AGGREGATIONS allowed)"
  let ?same = "filter (\<lambda>u. spanTagKey u = spanTagKey t) (Object_values tags)"
  have key: "templateString (tag_kind t) @ '':'' @ tag_key t = spanTagKey t"
    by (simp add: spanTagKey_def)
  from assms have "?same \<noteq> []"
    by (auto simp: filter_empty_conv)
  then have "spanTags tags (spanTagKey t) = Some (spanTagOption (last ?same))"
    unfolding spanTags_def spanTags_fold_last [of Map.empty "Object_values tags" "spanTagKey t"]
    by (cases ?same) simp_all
  then have one: "(?base ++ spanTags tags) (spanTagKey t) = Some (spanTagOption (last ?same))"
    by (simp add: map_add_def)
  have own: "distinct (map spanTagKey (Object_values tags)) \<longrightarrow>
             (?base ++ spanTags tags) (spanTagKey t) = Some (spanTagOption t)"
  proof
    assume "distinct (map spanTagKey (Object_values tags))"
    then have "?same = [t]" using assms by (rule filter_distinct_key)
    with one show "(?base ++ spanTags tags) (spanTagKey t) = Some (spanTagOption t)" by simp
  qed
  have two: "dom (?base ++ spanTags tags) = dom ?base \<union> spanTagKey ` set (Object_values tags)"
    by (auto simp: spanTags_def spanTags_fold_dom)
  have three: "\<forall>k. k \<notin> spanTagKey ` set (Object_values tags) \<longrightarrow> (?base ++ spanTags tags) k = ?base k"
    by (simp add: map_add_def spanTags_def spanTags_fold_other)
  show ?thesis
    unfolding getEventsTableFieldOptions_def Let_def key
    using one own two three by (simp add: spanTagOption_def)
qed

theorem table_field_options_per_tag_witness:
  "getEventsTableFieldOptions noFieldOptions [] acme
     (Some [(''foo'', untypedTag), (''browser'', browserTag)]) (None :: unit option) ''tag:browser'' =
   Some \<lparr>opt_label = ''Browser'',
         opt_value = \<lparr>fv_kind = TAG,
           fv_meta = \<lparr>meta_name = ''browser'', meta_dataType = Some ''string'',
                       meta_unknown = None\<rparr>\<rparr>\<rparr>"
  using table_field_options_per_tag
    [where tags = "Some [(''foo'', untypedTag), (''browser'', browserTag)]" and t = browserTag
       and generateFieldOptions = noFieldOptions and allowed = "[]" and organization = acme
       and customMeasurements = "None :: unit option"]
  by (simp add: Object_values_def spanTagKey_def spanTagOption_def templateString_def
      untypedTag_def browserTag_def)

text \<open>
  C2 as the specification words it fails on a tag without a kind: its option is typed
  \<open>number\<close>, not \<open>string\<close>, and sits under the key \<open>undefined:foo\<close>.
\<close>

theorem absent_kind_counterexample:
  "map_option (\<lambda>option. meta_dataType (fv_meta (opt_value option)))
     (getEventsTableFieldOptions noFieldOptions [] acme
        (Some [(''foo'', untypedTag)]) (None :: unit option) ''undefined:foo'')
   = Some (Some ''number'')"
  by (simp add: getEventsTableFieldOptions_def spanTags_def addSpanTag_def Object_values_def
      spanTagKey_def spanTagOption_def templateString_def untypedTag_def noFieldOptions_def)

section \<open>The table field options and the store\<close>

lemma alloc_extends: "alloc s c = (r, s') \<Longrightarrow> prefix s s' \<and> deref s' r = Some c"
  by (auto simp: alloc_def deref_def)

lemma deref_prefix: "prefix s s' \<Longrightarrow> deref s r = Some c \<Longrightarrow> deref s' r = Some c"
  by (auto simp: deref_def prefix_def nth_append split: if_splits)

lemma spanTagsReduce_allocates:
  "deref s acc = Some (FieldOptionsCell a) \<Longrightarrow>
   \<exists>r s'. spanTagsReduce s acc ts = Some (r, s') \<and> prefix s s' \<and>
          deref s' r = Some (FieldOptionsCell (foldl addSpanTag a ts))"
proof (induction ts arbitrary: s acc a)
  case Nil
  then show ?case by simp
next
  case (Cons tag ts)
  obtain r1 s1 where step: "alloc s (FieldOptionsCell (addSpanTag a tag)) = (r1, s1)"
    by (cases "alloc s (FieldOptionsCell (addSpanTag a tag))")
  then have ext: "prefix s s1" and new: "deref s1 r1 = Some (FieldOptionsCell (addSpanTag a tag))"
    by (simp_all add: alloc_extends)
  from Cons.IH [OF new] obtain r s' where
    rest: "spanTagsReduce s1 r1 ts = Some (r, s')" "prefix s1 s'"
      "deref s' r = Some (FieldOptionsCell (foldl addSpanTag (addSpanTag a tag) ts))"
    by blast
  from ext rest(2) have "prefix s s'" by (rule prefix_order.trans)
  with Cons.prems step rest show ?case by simp
qed

text \<open>
  C8. Called with references to an organization and to a tag catalog (or with no
  catalog), the function returns normally, for an empty or absent catalog as for any
  other. The store it leaves is the store it was given followed by the objects it
  allocated: the organization, the tag catalog and every other object that existed
  before the call are unchanged. The object it returns holds the options computed by
  \<open>getEventsTableFieldOptions\<close>, which for an empty or absent catalog are the base
  options.
\<close>

theorem table_field_options_frame:
  assumes org: "deref s organization = Some (OrganizationCell org)"
    and catalog: "readCatalog s tags = Some T"
  shows "(\<exists>r s'. getEventsTableFieldOptions_store generateFieldOptions allowed s organization tags
                   customMeasurements = Some (r, s') \<and>
                 prefix s s' \<and>
                 deref s' organization = deref s organization \<and>
                 (\<forall>i. i < length s \<longrightarrow> deref s' i = deref s i) \<and>
                 deref s' r = Some (FieldOptionsCell
                   (getEventsTableFieldOptions generateFieldOptions allowed org T cm))) \<and>
         (T = None \<or> T = Some [] \<longrightarrow>
            getEventsTableFieldOptions generateFieldOptions allowed org T cm =
            generateFieldOptions org [] [] (EAP_AGGREGATIONS allowed))"
proof
  let ?base = "generateFieldOptions org [] [] (EAP_AGGREGATIONS allowed)"
  obtain baseRef s1 where a1: "alloc s (FieldOptionsCell ?base) = (baseRef, s1)"
    by (cases "alloc s (FieldOptionsCell ?base)")
  then have p1: "prefix s s1" and d1: "deref s1 baseRef = Some (FieldOptionsCell ?base)"
    by (simp_all add: alloc_extends)
  obtain tagsRef s2 where
    a2: "(case tags of None \<Rightarrow> alloc s1 (TagCollectionCell []) | Some r \<Rightarrow> (r, s1)) = (tagsRef, s2)"
    by (cases "case tags of None \<Rightarrow> alloc s1 (TagCollectionCell []) | Some r \<Rightarrow> (r, s1)")
  let ?t = "case T of None \<Rightarrow> [] | Some t \<Rightarrow> t"
  have p2: "prefix s1 s2" and d2: "deref s2 tagsRef = Some (TagCollectionCell ?t)"
  proof -
    show "prefix s1 s2" using a2 by (cases tags) (auto simp: alloc_def)
    show "deref s2 tagsRef = Some (TagCollectionCell ?t)"
    proof (cases tags)
      case None
      with a2 catalog show ?thesis by (auto simp: readCatalog_def alloc_def deref_def)
    next
      case (Some r)
      with catalog obtain t where t: "deref s r = Some (TagCollectionCell t)" "T = Some t"
        by (auto simp: readCatalog_def split: option.splits Cell.splits)
      from p1 t(1) have "deref s1 r = Some (TagCollectionCell t)" by (rule deref_prefix)
      with Some a2 t show ?thesis by simp
    qed
  qed
  obtain valuesRef s3 where a3: "alloc s2 (TagArrayCell (map snd ?t)) = (valuesRef, s3)"
    by (cases "alloc s2 (TagArrayCell (map snd ?t))")
  then have p3: "prefix s2 s3" by (simp add: alloc_extends)
  obtain initRef s4 where a4: "alloc s3 (FieldOptionsCell Map.empty) = (initRef, s4)"
    by (cases "alloc s3 (FieldOptionsCell Map.empty)")
  then have p4: "prefix s3 s4" and d4: "deref s4 initRef = Some (FieldOptionsCell Map.empty)"
    by (simp_all add: alloc_extends)
  from spanTagsReduce_allocates [OF d4, of "map snd ?t"] obtain spanTagsRef s5 where
    r5: "spanTagsReduce s4 initRef (map snd ?t) = Some (spanTagsRef, s5)" and p5: "prefix s4 s5" and
    d5: "deref s5 spanTagsRef = Some (FieldOptionsCell (foldl addSpanTag Map.empty (map snd ?t)))"
    by blast
  have vals: "map snd ?t = Object_values T"
    by (simp add: Object_values_def split: option.split)
  have p15: "prefix s1 s5"
    using p2 p3 p4 p5 by (meson prefix_order.trans)
  then have d1': "deref s5 baseRef = Some (FieldOptionsCell ?base)" using d1 by (rule deref_prefix)
  obtain r s' where a6: "alloc s5 (FieldOptionsCell (?base ++ spanTags T)) = (r, s')"
    by (cases "alloc s5 (FieldOptionsCell (?base ++ spanTags T))")
  then have p6: "prefix s5 s'" and d6: "deref s' r = Some (FieldOptionsCell (?base ++ spanTags T))"
    by (simp_all add: alloc_extends)
  have run: "getEventsTableFieldOptions_store generateFieldOptions allowed s organization tags
               customMeasurements = Some (r, s')"
    using org a1 a2 d2 a3 a4 r5 d1' d5 a6
    by (simp add: getEventsTableFieldOptions_store_def spanTags_def vals)
  have frame: "prefix s s'"
    using p1 p15 p6 by (meson prefix_order.trans)
  then have same: "\<forall>i. i < length s \<longrightarrow> deref s' i = deref s i"
    by (auto simp: deref_def prefix_def nth_append)
  from frame org have "deref s' organization = deref s organization"
    by (simp add: deref_prefix)
  with run frame same d6
  show "\<exists>r s'. getEventsTableFieldOptions_store generateFieldOptions allowed s organization tags
                   customMeasurements = Some (r, s') \<and>
                 prefix s s' \<and>
                 deref s' organization = deref s organization \<and>
                 (\<forall>i. i < length s \<longrightarrow> deref s' i = deref s i) \<and>
                 deref s' r = Some (FieldOptionsCell
                   (getEventsTableFieldOptions generateFieldOptions allowed org T cm))"
    by (simp add: getEventsTableFieldOptions_def)
next
  show "T = None \<or> T = Some [] \<longrightarrow>
            getEventsTableFieldOptions generateFieldOptions allowed org T cm =
            generateFieldOptions org [] [] (EAP_AGGREGATIONS allowed)"
    by (auto simp: getEventsTableFieldOptions_def spanTags_def Object_values_def)
qed

theorem table_field_options_frame_witness:
  "(\<exists>r s'. getEventsTableFieldOptions_store noFieldOptions [] sampleStore 0 (Some 1) None = Some (r, s') \<and>
           prefix sampleStore s' \<and>
           deref s' 0 = deref sampleStore 0 \<and>
           (\<forall>i. i < length sampleStore \<longrightarrow> deref s' i = deref sampleStore i) \<and>
           deref s' r = Some (FieldOptionsCell
             (getEventsTableFieldOptions noFieldOptions [] acme (Some [(''foo'', untypedTag)])
                (None :: unit option)))) \<and>
   (\<exists>r s'. getEventsTableFieldOptions_store noFieldOptions [] sampleStore 0 None None = Some (r, s') \<and>
           prefix sampleStore s' \<and>
           deref s' r = Some (FieldOptionsCell
             (getEventsTableFieldOptions noFieldOptions [] acme None (None :: unit option)))) \<and>
   getEventsTableFieldOptions noFieldOptions [] acme None (None :: unit option) =
     noFieldOptions acme [] [] (EAP_AGGREGATIONS []) \<and>
   (\<exists>r s'. getEventsTableFieldOptions_store noFieldOptions [] sampleStore 0 (Some 2) None = Some (r, s') \<and>
           prefix sampleStore s' \<and>
           deref s' r = Some (FieldOptionsCell
             (getEventsTableFieldOptions noFieldOptions [] acme (Some []) (None :: unit option)))) \<and>
   getEventsTableFieldOptions noFieldOptions [] acme (Some []) (None :: unit option) =
     noFieldOptions acme [] [] (EAP_AGGREGATIONS [])"
proof -
  have org: "deref sampleStore 0 = Some (OrganizationCell acme)"
    by (simp add: sampleStore_def deref_def)
  have one: "readCatalog sampleStore (Some 1) = Some (Some [(''foo'', untypedTag)])"
    by (simp add: readCatalog_def sampleStore_def deref_def)
  have none: "readCatalog sampleStore None = Some None"
    by (simp add: readCatalog_def)
  have empty: "readCatalog sampleStore (Some 2) = Some (Some [])"
    by (simp add: readCatalog_def sampleStore_def deref_def)
  from table_field_options_frame [OF org one, of noFieldOptions "[]" None "None :: unit option"]
    table_field_options_frame [OF org none, of noFieldOptions "[]" None "None :: unit option"]
    table_field_options_frame [OF org empty, of noFieldOptions "[]" None "None :: unit option"]
  show ?thesis by blast
qed

section \<open>Properties of the table request\<close>

lemma params_sort:
  "getEventsRequest_params query limit cursor referrer None ''sort'' =
     (if wq_orderby query \<noteq> '''' then Some (VArray [VString (wq_orderby query)]) else None)"
  by (simp add: getEventsRequest_params_def toArray_def Let_def)

text \<open>
  C5 (as the code has it). A table request for a widget query ordered by
  \<open>-avg(span.duration)\<close> has the \<open>sort\<close> parameter \<open>[-avg(span.duration)]\<close>,
  whatever the event view contributes. For a widget query with an empty order-by the
  parameters the adapter builds have no \<open>sort\<close> key, and the request, the event
  view's query-string object overlaid with those parameters, has exactly the
  \<open>sort\<close> of the event view's object: none when that object has none.
\<close>

theorem table_request_sort:
  "(wq_orderby query = ''-avg(span.duration)'' \<longrightarrow>
      call_data (getTableRequest eventViewQuery widget query organization pageFilters
                   onDemandControlContext limit cursor referrer mepSetting) ''sort'' =
        Some (VArray [VString ''-avg(span.duration)''])) \<and>
   (wq_orderby query = '''' \<longrightarrow>
      getEventsRequest_params query limit cursor referrer None ''sort'' = None \<and>
      call_data (getTableRequest eventViewQuery widget query organization pageFilters
                   onDemandControlContext limit cursor referrer mepSetting) ''sort'' =
        eventViewQuery '''' query pageFilters ''sort'')"
proof -
  have data: "call_data (getTableRequest eventViewQuery widget query organization pageFilters
                   onDemandControlContext limit cursor referrer mepSetting) ''sort'' =
        (case getEventsRequest_params query limit cursor referrer None ''sort'' of
           None \<Rightarrow> eventViewQuery '''' query pageFilters ''sort''
         | Some v \<Rightarrow> Some v)"
    by (simp add: getTableRequest_def getEventsRequest_def Let_def map_add_def)
  show ?thesis
    unfolding data params_sort by simp
qed

theorem table_request_sort_witness:
  "call_data (getTableRequest sortingEventView () DEFAULT_WIDGET_QUERY acme allProjects
                (None :: unit option) (Some 5) None (Some ''dashboards.table'') (None :: unit option)) ''sort'' =
     Some (VArray [VString ''-avg(span.duration)'']) \<and>
   getEventsRequest_params unsortedQuery (Some 5) None (Some ''dashboards.table'') None ''sort'' = None \<and>
   call_data (getTableRequest emptyEventView () unsortedQuery acme allProjects
                (None :: unit option) (Some 5) None (Some ''dashboards.table'') (None :: unit option)) ''sort'' =
     None"
  using table_request_sort [of DEFAULT_WIDGET_QUERY sortingEventView "()" acme allProjects
      "None :: unit option" "Some 5" None "Some ''dashboards.table''" "None :: unit option"]
    table_request_sort [of unsortedQuery emptyEventView "()" acme allProjects
      "None :: unit option" "Some 5" None "Some ''dashboards.table''" "None :: unit option"]
  by (simp add: DEFAULT_WIDGET_QUERY_def unsortedQuery_def emptyEventView_def)

text \<open>
  C5 as the specification words it fails for an empty order-by when the event view's
  query-string object has a \<open>sort\<close> key: the spread keeps it, and the request has a
  \<open>sort\<close> parameter.
\<close>

theorem empty_orderby_sort_counterexample:
  "wq_orderby unsortedQuery = '''' \<and>
   call_data (getTableRequest sortingEventView () unsortedQuery acme allProjects
                (None :: unit option) (Some 5) None (Some ''dashboards.table'') (None :: unit option)) ''sort'' =
     Some (VArray [])"
  by (simp add: getTableRequest_def getEventsRequest_def getEventsRequest_params_def Let_def
      map_add_def unsortedQuery_def DEFAULT_WIDGET_QUERY_def sortingEventView_def)

lemma retryLoop_attempts:
  "Suc n \<le> fst (retryLoop codes server n left) \<and> fst (retryLoop codes server n left) \<le> Suc n + left"
proof (induction left arbitrary: n)
  case 0
  then show ?case by simp
next
  case (Suc left)
  have ih: "Suc (Suc n) \<le> fst (retryLoop codes server (Suc n) left) \<and>
            fst (retryLoop codes server (Suc n) left) \<le> Suc (Suc n) + left"
    by (rule Suc.IH)
  show ?case
  proof (cases "server n")
    case (Succeeded x)
    then show ?thesis by simp
  next
    case (Failed status)
    with ih show ?thesis by (cases "status \<in> set codes") auto
  qed
qed

lemma retryLoop_surfaces:
  "snd (retryLoop codes server n left) = server (fst (retryLoop codes server n left) - 1)"
  by (induction left arbitrary: n) (auto split: Response.split)

lemma retryLoop_retried:
  "n \<le> i \<Longrightarrow> Suc i < fst (retryLoop codes server n left) \<Longrightarrow>
   \<exists>status. server i = Failed status \<and> status \<in> set codes"
proof (induction left arbitrary: n)
  case 0
  then show ?case by simp
next
  case (Suc left)
  show ?case
  proof (cases "server n")
    case (Succeeded x)
    with Suc.prems show ?thesis by simp
  next
    case (Failed status)
    show ?thesis
    proof (cases "status \<in> set codes")
      case True
      show ?thesis
      proof (cases "i = n")
        case True
        with Failed \<open>status \<in> set codes\<close> show ?thesis by simp
      next
        case False
        with Suc.prems have "Suc n \<le> i" by simp
        moreover from Suc.prems Failed True have "Suc i < fst (retryLoop codes server (Suc n) left)"
          by simp
        ultimately show ?thesis by (rule Suc.IH)
      qed
    next
      case False
      with Suc.prems Failed show ?thesis by simp
    qed
  qed
qed

lemma retryLoop_exhausted:
  "(\<forall>i. n \<le> i \<and> i < n + left \<longrightarrow> (\<exists>status. server i = Failed status \<and> status \<in> set codes)) \<Longrightarrow>
   retryLoop codes server n left = (Suc (n + left), server (n + left))"
proof (induction left arbitrary: n)
  case 0
  then show ?case by simp
next
  case (Suc left)
  from Suc.prems obtain status where st: "server n = Failed status" "status \<in> set codes"
    by force
  have "\<forall>i. Suc n \<le> i \<and> i < Suc n + left \<longrightarrow> (\<exists>status. server i = Failed status \<and> status \<in> set codes)"
    using Suc.prems by simp
  then have "retryLoop codes server (Suc n) left = (Suc (Suc n + left), server (Suc n + left))"
    by (rule Suc.IH)
  with st show ?case by simp
qed

text \<open>
  C6. Every table request carries the retry policy "3 tries, status 429 only". Under
  that policy the client makes between one and three attempts, every attempt but the
  last was answered with 429, the answer of the last attempt is what surfaces, three
  answers of 429 exhaust the attempts, and a failure with any other status surfaces
  after the first attempt.
\<close>

theorem table_request_retry:
  "call_retry (getTableRequest eventViewQuery widget query organization pageFilters
                 onDemandControlContext limit cursor referrer mepSetting) =
     Some \<lparr>retry_statusCodes = [429], retry_tries = 3\<rparr> \<and>
   1 \<le> fst (doDiscoverQuery server (getTableRequest eventViewQuery widget query organization
                 pageFilters onDemandControlContext limit cursor referrer mepSetting)) \<and>
   fst (doDiscoverQuery server (getTableRequest eventViewQuery widget query organization
                 pageFilters onDemandControlContext limit cursor referrer mepSetting)) \<le> 3 \<and>
   (\<forall>i. Suc i < fst (doDiscoverQuery server (getTableRequest eventViewQuery widget query organization
                 pageFilters onDemandControlContext limit cursor referrer mepSetting)) \<longrightarrow>
        server i = Failed 429) \<and>
   snd (doDiscoverQuery server (getTableRequest eventViewQuery widget query organization
                 pageFilters onDemandControlContext limit cursor referrer mepSetting)) =
     server (fst (doDiscoverQuery server (getTableRequest eventViewQuery widget query organization
                 pageFilters onDemandControlContext limit cursor referrer mepSetting)) - 1) \<and>
   (server 0 = Failed 429 \<and> server 1 = Failed 429 \<longrightarrow>
      doDiscoverQuery server (getTableRequest eventViewQuery widget query organization
                 pageFilters onDemandControlContext limit cursor referrer mepSetting) = (3, server 2)) \<and>
   (\<forall>status. server 0 = Failed status \<and> status \<noteq> 429 \<longrightarrow>
      doDiscoverQuery server (getTableRequest eventViewQuery widget query organization
                 pageFilters onDemandControlContext limit cursor referrer mepSetting) = (1, Failed status))"
proof -
  let ?call = "getTableRequest eventViewQuery widget query organization
                 pageFilters onDemandControlContext limit cursor referrer mepSetting"
  have policy: "call_retry ?call = Some \<lparr>retry_statusCodes = [429], retry_tries = 3\<rparr>"
    by (simp add: getTableRequest_def getEventsRequest_def Let_def)
  then have run: "doDiscoverQuery server ?call = retryLoop [429] server 0 2"
    by (simp add: doDiscoverQuery_def)
  have bounds: "1 \<le> fst (retryLoop [429] server 0 2) \<and> fst (retryLoop [429] server 0 2) \<le> 3"
    using retryLoop_attempts [of 0 "[429]" server 2] by simp
  have only: "\<forall>i. Suc i < fst (retryLoop [429] server 0 2) \<longrightarrow> server i = Failed 429"
    using retryLoop_retried [of 0 _ "[429]" server 2] by auto
  have exhausted: "server 0 = Failed 429 \<and> server 1 = Failed 429 \<longrightarrow>
      retryLoop [429] server 0 2 = (3, server 2)"
  proof
    assume a: "server 0 = Failed 429 \<and> server 1 = Failed 429"
    have "\<forall>i. 0 \<le> i \<and> i < 0 + 2 \<longrightarrow> (\<exists>status. server i = Failed status \<and> status \<in> set [429])"
    proof (intro allI impI)
      fix i :: nat assume "0 \<le> i \<and> i < 0 + 2"
      then have "i = 0 \<or> i = 1" by auto
      with a show "\<exists>status. server i = Failed status \<and> status \<in> set [429]" by auto
    qed
    then have "retryLoop [429] server 0 2 = (Suc (0 + 2), server (0 + 2))"
      by (rule retryLoop_exhausted)
    then show "retryLoop [429] server 0 2 = (3, server 2)" by (simp add: eval_nat_numeral)
  qed
  have other: "\<forall>status. server 0 = Failed status \<and> status \<noteq> 429 \<longrightarrow>
      retryLoop [429] server 0 2 = (1, Failed status)"
    by (simp add: eval_nat_numeral)
  have surfaces: "snd (retryLoop [429] server 0 2) = server (fst (retryLoop [429] server 0 2) - 1)"
    by (rule retryLoop_surfaces)
  show ?thesis
    unfolding run using policy bounds only surfaces exhausted other by blast
qed

theorem table_request_retry_witness:
  "doDiscoverQuery rateLimited
     (getTableRequest emptyEventView () DEFAULT_WIDGET_QUERY acme allProjects
        (None :: unit option) (Some 5) None (Some ''dashboards.table'') (None :: unit option)) =
     (3, Failed 429) \<and>
   doDiscoverQuery serverError
     (getTableRequest emptyEventView () DEFAULT_WIDGET_QUERY acme allProjects
        (None :: unit option) (Some 5) None (Some ''dashboards.table'') (None :: unit option)) =
     (1, Failed 500)"
  using table_request_retry [of emptyEventView "()" DEFAULT_WIDGET_QUERY acme allProjects
      "None :: unit option" "Some 5" None "Some ''dashboards.table''" "None :: unit option" rateLimited]
    table_request_retry [of emptyEventView "()" DEFAULT_WIDGET_QUERY acme allProjects
      "None :: unit option" "Some 5" None "Some ''dashboards.table''" "None :: unit option" serverError]
  by (simp add: rateLimited_def serverError_def)

section \<open>Properties of the pagination handler\<close>

lemmas number_eval =
  Number_def trimString_def isStrWhiteSpaceChar_def parseUnsignedDecimal_def isDecimalDigit_def
  digitOf_def parseExponent_def parseDigits_def scale10_def parseRadixLiteral_def
  negateNumber_def Let_def

lemma cursorOffset_unparseable: "cursorOffset (Some ''100:abc:0'') = NaN"
  by (simp add: cursorOffset_def index_js_def number_eval)

lemma cursorOffset_zero: "cursorOffset (Some ''100:0:0'') = Finite 0"
  by (simp add: cursorOffset_def index_js_def number_eval)

lemma cursorOffset_one: "cursorOffset (Some ''100:1:0'') = Finite 1"
  by (simp add: cursorOffset_def index_js_def number_eval)

text \<open>
  C3 (as the code has it). The handler tracks the analytics event and navigates to the
  given path. The offset is 0 when the cursor is absent or has no second
  colon-delimited field, and \<open>Number\<close> of that field otherwise, which is \<open>NaN\<close>
  and not 0 when the field does not parse. The navigation query omits the
  \<open>cursor\<close> key when the offset is at most 0 and the direction is \<open>-1\<close>; in
  every other case, an unparseable field included, it is the given query with
  \<open>cursor\<close> set to the new cursor.
\<close>

theorem onCursor_navigation:
  "onCursor cursor path query direction =
     [TrackAnalytics ''dashboards_manage.paginate'',
      Navigate \<lparr>nav_pathname = path,
                nav_query = (if lessEqZero (cursorOffset cursor) \<and> direction = - 1
                             then query(''cursor'' := None)
                             else query(''cursor'' \<mapsto> optString cursor))\<rparr>] \<and>
   (cursor = None \<longrightarrow> cursorOffset cursor = Finite 0) \<and>
   (\<forall>c. cursor = Some c \<and> length (split_js (CHR '':'') c) < 2 \<longrightarrow> cursorOffset cursor = Finite 0) \<and>
   (\<forall>c. cursor = Some c \<and> 2 \<le> length (split_js (CHR '':'') c) \<longrightarrow>
        cursorOffset cursor = Number (split_js (CHR '':'') c ! 1)) \<and>
   (cursorOffset cursor = NaN \<longrightarrow>
      navigatedQuery (onCursor cursor path query direction) = Some (query(''cursor'' \<mapsto> optString cursor)))"
  by (auto simp: onCursor_def Let_def cursorOffset_def index_js_def lessEqZero_def)

theorem onCursor_navigation_witness:
  "navigatedQuery (onCursor (Some ''100:abc:0'') ''/dashboards/'' Map.empty (- 1)) =
     Some [''cursor'' \<mapsto> VString ''100:abc:0''] \<and>
   navigatedQuery (onCursor (Some ''100:0:0'') ''/dashboards/'' [''cursor'' \<mapsto> VString ''100:1:0''] (- 1)) =
     Some Map.empty \<and>
   navigatedQuery (onCursor (Some ''100:1:0'') ''/dashboards/'' Map.empty (- 1)) =
     Some [''cursor'' \<mapsto> VString ''100:1:0'']"
  using onCursor_navigation [of "Some ''100:abc:0''" "''/dashboards/''" Map.empty "- 1"]
    onCursor_navigation [of "Some ''100:0:0''" "''/dashboards/''" "[''cursor'' \<mapsto> VString ''100:1:0'']" "- 1"]
    onCursor_navigation [of "Some ''100:1:0''" "''/dashboards/''" Map.empty "- 1"]
  by (simp add: cursorOffset_unparseable cursorOffset_zero cursorOffset_one lessEqZero_def optString_def)

text \<open>
  C3 as the specification words it fails on a cursor whose second field does not
  parse: the offset is not 0, and going to the previous page keeps the cursor in the
  navigation query.
\<close>

theorem unparseable_offset_counterexample:
  "cursorOffset (Some ''100:abc:0'') \<noteq> Finite 0 \<and>
   navigatedQuery (onCursor (Some ''100:abc:0'') ''/dashboards/'' Map.empty (- 1)) =
     Some [''cursor'' \<mapsto> VString ''100:abc:0'']"
  by (simp add: onCursor_def Let_def cursorOffset_unparseable lessEqZero_def optString_def)

section \<open>Properties of the dashboard list\<close>

lemma clearWidgetIds_widgets:
  "length (dash_widgets (clearWidgetIds d)) = length (dash_widgets d) \<and>
   list_all (\<lambda>w. widget_id w = None) (dash_widgets (clearWidgetIds d))"
  by (simp add: clearWidgetIds_def list_all_iff)

text \<open>
  C4. When the fetch of the full detail succeeds with a dashboard of N widgets, and
  the cloning collaborator keeps the number of widgets, the duplicate handler issues
  exactly one create request; its dashboard has N widgets, none of them has an
  identifier, and its last argument, the flag that switches the duplicate-title
  detection off, is true.
\<close>

theorem duplicate_create_request:
  assumes fetched: "fetchDashboard (org_slug organization) (item_id dashboard) = Inr dashboardDetail"
    and cloned: "length (dash_widgets (cloneDashboard dashboardDetail)) = length (dash_widgets dashboardDetail)"
  shows "\<exists>newDashboard.
           filter isCreate
             (handleDuplicate fetchDashboard cloneDashboard createDashboard organization dashboard) =
             [CreateDashboard (org_slug organization) newDashboard True] \<and>
           length (dash_widgets newDashboard) = length (dash_widgets dashboardDetail) \<and>
           list_all (\<lambda>w. widget_id w = None) (dash_widgets newDashboard)"
proof -
  let ?new = "clearWidgetIds (cloneDashboard dashboardDetail)"
  have len: "length (dash_widgets ?new) = length (dash_widgets dashboardDetail)"
    using cloned clearWidgetIds_widgets [of "cloneDashboard dashboardDetail"] by simp
  have ids: "list_all (\<lambda>w. widget_id w = None) (dash_widgets ?new)"
    using clearWidgetIds_widgets [of "cloneDashboard dashboardDetail"] by simp
  have "filter isCreate
          (handleDuplicate fetchDashboard cloneDashboard createDashboard organization dashboard) =
        [CreateDashboard (org_slug organization) ?new True]"
    using fetched
    by (cases "createDashboard (org_slug organization) ?new True")
       (simp_all add: handleDuplicate_def Let_def)
  with len ids show ?thesis by blast
qed

theorem duplicate_create_request_witness:
  "\<exists>newDashboard.
     filter isCreate
       (handleDuplicate (\<lambda>slug i. Inr twoWidgetDashboard) (\<lambda>d. d) (\<lambda>slug d flag. Inr d) acme overviewItem) =
       [CreateDashboard (org_slug acme) newDashboard True] \<and>
     length (dash_widgets newDashboard) = length (dash_widgets twoWidgetDashboard) \<and>
     list_all (\<lambda>w. widget_id w = None) (dash_widgets newDashboard)"
  using duplicate_create_request
    [of "\<lambda>slug i. Inr twoWidgetDashboard" acme overviewItem twoWidgetDashboard "\<lambda>d. d" "\<lambda>slug d flag. Inr d"]
  by simp



section \<open>Properties of \<open>expandKeys\<close>\<close>





















end
